theory Spec2Isabelle
  imports Main
begin

section \<open>Python values\<close>

text \<open>
  The records handled by \<^verbatim>\<open>validation.py\<close> and \<^verbatim>\<open>writing.py\<close> are dictionaries from
  field names to scalars (\<^verbatim>\<open>None\<close>, \<^verbatim>\<open>bool\<close>, \<^verbatim>\<open>int\<close>, \<^verbatim>\<open>float\<close>, \<^verbatim>\<open>str\<close>).
  Neither module performs float arithmetic, so a float is carried by its \<^verbatim>\<open>repr\<close> text.
\<close>

datatype pyval = VNone | VBool bool | VInt int | VFloat string | VStr string

text \<open>The four classes that are the values of \<^verbatim>\<open>_TYPE_MAP\<close>.\<close>

datatype pytype = TStr | TInt | TFloat | TBool

text \<open>\<^verbatim>\<open>isinstance(value, expected_type)\<close>; in Python \<^verbatim>\<open>bool\<close> is a subclass of \<^verbatim>\<open>int\<close>.\<close>

fun isinstance :: "pyval \<Rightarrow> pytype \<Rightarrow> bool" where
  "isinstance (VStr s) TStr = True"
| "isinstance (VInt i) TInt = True"
| "isinstance (VBool b) TInt = True"
| "isinstance (VFloat x) TFloat = True"
| "isinstance (VBool b) TBool = True"
| "isinstance v t = False"

type_synonym pydict = "string \<Rightarrow> pyval option"

text \<open>\<^verbatim>\<open>d.get(k)\<close>: \<^verbatim>\<open>None\<close> for a missing key, so absent and null are not told apart.\<close>

definition dict_get :: "pydict \<Rightarrow> string \<Rightarrow> pyval" where
  "dict_get d k = (case d k of None \<Rightarrow> VNone | Some v \<Rightarrow> v)"

text \<open>
  Exceptions, by class, with their message. \<^verbatim>\<open>PatternError\<close> stands for \<^verbatim>\<open>re.error\<close>,
  \<^verbatim>\<open>InterfaceError\<close> for the error psycopg2 raises on a connection that is gone.
\<close>

datatype exn = RuntimeError string | InterfaceError string | OverflowError string | PatternError string

text \<open>\<^verbatim>\<open>str(e)\<close> of an exception\<close>

fun exn_str :: "exn \<Rightarrow> string" where
  "exn_str (RuntimeError m) = m"
| "exn_str (InterfaceError m) = m"
| "exn_str (OverflowError m) = m"
| "exn_str (PatternError m) = m"

section \<open>validation.py\<close>

subsection \<open>Rules\<close>

text \<open>
  One entry of the \<^verbatim>\<open>fields\<close> mapping of the YAML rules document: each of the keys
  \<^verbatim>\<open>type\<close>, \<^verbatim>\<open>required\<close> and \<^verbatim>\<open>regex\<close> may be missing.
\<close>

record rule =
  type_name :: "string option"
  required :: "bool option"
  regex :: "string option"

text \<open>\<^verbatim>\<open>rule.get("required", False)\<close>\<close>

definition is_required :: "rule \<Rightarrow> bool" where
  "is_required r = (case required r of None \<Rightarrow> False | Some b \<Rightarrow> b)"

text \<open>\<^verbatim>\<open>_TYPE_MAP.get(expected_type_name)\<close>\<close>

definition TYPE_MAP :: "string \<Rightarrow> pytype option" where
  "TYPE_MAP name =
     (if name = ''str'' then Some TStr
      else if name = ''int'' then Some TInt
      else if name = ''float'' then Some TFloat
      else if name = ''bool'' then Some TBool
      else None)"

subsection \<open>The built-ins the validator calls\<close>

text \<open>
  \<^verbatim>\<open>_validate_field\<close> calls the constructor \<^verbatim>\<open>expected_type(value)\<close> inside
  \<^verbatim>\<open>try ... except (ValueError, TypeError)\<close>, and the matcher \<^verbatim>\<open>re.match(regex, value)\<close>
  outside any \<^verbatim>\<open>try\<close>. Both belong to the Python library, not to the repository, so the
  embedding takes them as parameters:
  \<^item> a \<open>caster\<close> gives \<open>Returns v\<close> when the constructor returns \<open>v\<close>, \<open>Caught\<close> when it
    raises \<^verbatim>\<open>ValueError\<close> or \<^verbatim>\<open>TypeError\<close>, and \<open>Raises e\<close> when it raises any other
    exception, as \<^verbatim>\<open>int(float("inf"))\<close> and \<^verbatim>\<open>float(10**400)\<close> do with \<^verbatim>\<open>OverflowError\<close>;
  \<^item> a \<open>matcher\<close> gives \<open>Inr b\<close>, where \<open>b\<close> tells whether \<^verbatim>\<open>re.match\<close> returns a match
    object, or \<open>Inl e\<close> when it raises, as it does with \<^verbatim>\<open>re.error\<close> on a pattern that
    does not compile.
\<close>

datatype cast_result = Returns pyval | Caught | Raises exn

type_synonym caster = "pytype \<Rightarrow> pyval \<Rightarrow> cast_result"

type_synonym matcher = "string \<Rightarrow> string \<Rightarrow> exn + bool"

subsection \<open>\<^verbatim>\<open>_validate_field\<close>\<close>

text \<open>
  Lines 70--78, the type check. \<^verbatim>\<open>if expected_type_name:\<close> skips a missing or empty name,
  \<^verbatim>\<open>if expected_type and ...\<close> skips a name that \<^verbatim>\<open>_TYPE_MAP\<close> does not know. \<open>Returns v\<close>
  is the value carried on to the pattern check, \<open>Caught\<close> is the \<^verbatim>\<open>except\<close> branch, and
  \<open>Raises e\<close> an exception that the \<^verbatim>\<open>except\<close> clause does not name.
\<close>

definition coerce :: "caster \<Rightarrow> pyval \<Rightarrow> rule \<Rightarrow> cast_result" where
  "coerce cast value rule =
     (case type_name rule of
        None \<Rightarrow> Returns value
      | Some expected_type_name \<Rightarrow>
          if expected_type_name = [] then Returns value
          else (case TYPE_MAP expected_type_name of
                  None \<Rightarrow> Returns value
                | Some expected_type \<Rightarrow>
                    if \<not> isinstance value expected_type then cast expected_type value
                    else Returns value))"

text \<open>
  Lines 81--84, the pattern check: \<^verbatim>\<open>if regex and isinstance(value, str)\<close> and then
  \<^verbatim>\<open>if not re.match(regex, value)\<close>. \<open>Inr False\<close> is the \<^verbatim>\<open>return False, None\<close> of line
  84, \<open>Inl e\<close> an exception of \<^verbatim>\<open>re.match\<close>.
\<close>

definition regex_ok :: "matcher \<Rightarrow> pyval \<Rightarrow> rule \<Rightarrow> exn + bool" where
  "regex_ok re_match value rule =
     (case regex rule of
        None \<Rightarrow> Inr True
      | Some rx \<Rightarrow>
          (case value of
             VStr s \<Rightarrow> if rx \<noteq> [] then re_match rx s else Inr True
           | _ \<Rightarrow> Inr True))"

text \<open>The whole function: \<open>Inl e\<close> is an exception that leaves it, \<open>Inr\<close> the pair it returns.\<close>

definition validate_field :: "caster \<Rightarrow> matcher \<Rightarrow> pyval \<Rightarrow> rule \<Rightarrow> exn + bool \<times> pyval" where
  "validate_field cast re_match value rule =
     (if value = VNone then Inr (False, VNone)
      else (case coerce cast value rule of
              Raises e \<Rightarrow> Inl e
            | Caught \<Rightarrow> Inr (False, VNone)
            | Returns v \<Rightarrow>
                (case regex_ok re_match v rule of
                   Inl e \<Rightarrow> Inl e
                 | Inr matched \<Rightarrow>
                     if \<not> matched then Inr (False, VNone)
                     else Inr (True, v))))"

subsection \<open>\<^verbatim>\<open>validate_record\<close>\<close>

text \<open>
  The rules mapping is a Python \<^verbatim>\<open>dict\<close>: \<^verbatim>\<open>rules.items()\<close> lists its entries in insertion
  order and no field name occurs twice. It is modelled as an association list; the
  uniqueness of the keys is the hypothesis \<open>distinct (map fst rules)\<close> of the theorems.

  The loop of lines 102--116 over the working copy \<open>cleaned\<close>. \<open>Inr None\<close> is the
  \<^verbatim>\<open>return None\<close> of line 110, \<open>Inl e\<close> an exception of \<^verbatim>\<open>_validate_field\<close>, which nothing
  in the loop catches.
\<close>

fun validate_record_loop ::
  "caster \<Rightarrow> matcher \<Rightarrow> (string \<times> rule) list \<Rightarrow> pydict \<Rightarrow> exn + pydict option" where
  "validate_record_loop cast re_match [] cleaned = Inr (Some cleaned)"
| "validate_record_loop cast re_match ((field_name, rule) # rest) cleaned =
     (case validate_field cast re_match (dict_get cleaned field_name) rule of
        Inl e \<Rightarrow> Inl e
      | Inr (is_valid, new_value) \<Rightarrow>
          if \<not> is_valid then
            (if is_required rule then Inr None
             else validate_record_loop cast re_match rest (cleaned(field_name \<mapsto> VNone)))
          else validate_record_loop cast re_match rest (cleaned(field_name \<mapsto> new_value)))"

text \<open>
  \<^verbatim>\<open>validate_record(record, rules)\<close> on dictionary values: \<^verbatim>\<open>cleaned = dict(record)\<close> starts
  the loop from the contents of the record.
\<close>

definition validate_record ::
  "caster \<Rightarrow> matcher \<Rightarrow> pydict \<Rightarrow> (string \<times> rule) list \<Rightarrow> exn + pydict option" where
  "validate_record cast re_match record rules = validate_record_loop cast re_match rules record"

subsection \<open>\<^verbatim>\<open>run_validation\<close>\<close>

text \<open>
  The loop of lines 139--144 with its accumulator \<^verbatim>\<open>valid_records\<close>; an exception of
  \<^verbatim>\<open>validate_record\<close> ends the run. Reading the YAML file (\<^verbatim>\<open>load_rules\<close>) is outside the
  embedding: the loaded rules are an argument.
\<close>

fun run_validation_loop ::
  "caster \<Rightarrow> matcher \<Rightarrow> (string \<times> rule) list \<Rightarrow> pydict list \<Rightarrow> pydict list \<Rightarrow> exn + pydict list" where
  "run_validation_loop cast re_match rules [] valid_records = Inr valid_records"
| "run_validation_loop cast re_match rules (record # records) valid_records =
     (case validate_record cast re_match record rules of
        Inl e \<Rightarrow> Inl e
      | Inr None \<Rightarrow> run_validation_loop cast re_match rules records valid_records
      | Inr (Some result) \<Rightarrow>
          run_validation_loop cast re_match rules records (valid_records @ [result]))"

definition run_validation ::
  "caster \<Rightarrow> matcher \<Rightarrow> pydict list \<Rightarrow> (string \<times> rule) list \<Rightarrow> exn + pydict list" where
  "run_validation cast re_match records rules = run_validation_loop cast re_match rules records []"

subsection \<open>\<^verbatim>\<open>validate_record\<close> on a store of dictionary objects\<close>

text \<open>
  Python dictionaries are mutable objects reached through references. To state that the
  caller's record is left alone, the same function is embedded once more over a store:
  \<open>cells\<close> holds the contents of every object, the addresses below \<open>next_addr\<close> are the
  allocated ones. \<^verbatim>\<open>dict(record)\<close> allocates a new object with the same entries (the values
  are immutable scalars, so the shallow copy shares nothing that can change).
\<close>

record store =
  cells :: "nat \<Rightarrow> pydict"
  next_addr :: nat

definition dict_copy :: "store \<Rightarrow> nat \<Rightarrow> store \<times> nat" where
  "dict_copy st a =
     (st\<lparr>cells := (cells st)(next_addr st := cells st a), next_addr := Suc (next_addr st)\<rparr>,
      next_addr st)"

text \<open>\<^verbatim>\<open>cleaned[field_name] = v\<close> on the object at address \<open>a\<close>.\<close>

definition dict_setitem :: "store \<Rightarrow> nat \<Rightarrow> string \<Rightarrow> pyval \<Rightarrow> store" where
  "dict_setitem st a k v = st\<lparr>cells := (cells st)(a := (cells st a)(k \<mapsto> v))\<rparr>"

fun validate_record_loop_st ::
  "caster \<Rightarrow> matcher \<Rightarrow> (string \<times> rule) list \<Rightarrow> store \<Rightarrow> nat \<Rightarrow> store \<times> (exn + nat option)" where
  "validate_record_loop_st cast re_match [] st cleaned = (st, Inr (Some cleaned))"
| "validate_record_loop_st cast re_match ((field_name, rule) # rest) st cleaned =
     (case validate_field cast re_match (dict_get (cells st cleaned) field_name) rule of
        Inl e \<Rightarrow> (st, Inl e)
      | Inr (is_valid, new_value) \<Rightarrow>
          if \<not> is_valid then
            (if is_required rule then (st, Inr None)
             else validate_record_loop_st cast re_match rest
                    (dict_setitem st cleaned field_name VNone) cleaned)
          else validate_record_loop_st cast re_match rest
                 (dict_setitem st cleaned field_name new_value) cleaned)"

definition validate_record_st ::
  "caster \<Rightarrow> matcher \<Rightarrow> store \<Rightarrow> nat \<Rightarrow> (string \<times> rule) list \<Rightarrow> store \<times> (exn + nat option)" where
  "validate_record_st cast re_match st record rules =
     (case dict_copy st record of
        (st1, cleaned) \<Rightarrow> validate_record_loop_st cast re_match rules st1 cleaned)"

subsection \<open>The field check of the specification\<close>

text \<open>
  The per-field algorithm as section 4.2 of the specification words it, for comparison
  with \<open>validate_field\<close>. The supported kinds are \<^verbatim>\<open>str\<close>, \<^verbatim>\<open>int\<close>, \<^verbatim>\<open>float\<close> and
  \<^verbatim>\<open>bool\<close>; any other type name means no type check. A null value fails. A value that is
  not of the declared kind is coerced, and a coercion that does not give a value fails. A
  declared pattern must match a string value from its start (the empty pattern matches
  every string). \<open>None\<close> is a failed field, \<open>Some v\<close> the possibly coerced value of a field
  that passes.
\<close>

definition supported_kind :: "rule \<Rightarrow> pytype option" where
  "supported_kind rule =
     (if type_name rule = Some ''str'' then Some TStr
      else if type_name rule = Some ''int'' then Some TInt
      else if type_name rule = Some ''float'' then Some TFloat
      else if type_name rule = Some ''bool'' then Some TBool
      else None)"

definition spec_coerce :: "caster \<Rightarrow> pyval \<Rightarrow> rule \<Rightarrow> pyval option" where
  "spec_coerce cast value rule =
     (case supported_kind rule of
        None \<Rightarrow> Some value
      | Some kind \<Rightarrow>
          if isinstance value kind then Some value
          else (case cast kind value of Returns v \<Rightarrow> Some v | Caught \<Rightarrow> None | Raises e \<Rightarrow> None))"

definition spec_pattern_ok :: "matcher \<Rightarrow> pyval \<Rightarrow> rule \<Rightarrow> bool" where
  "spec_pattern_ok re_match value rule =
     (case (regex rule, value) of
        (Some pattern, VStr s) \<Rightarrow> pattern = [] \<or> re_match pattern s = Inr True
      | _ \<Rightarrow> True)"

definition spec_validate_field :: "caster \<Rightarrow> matcher \<Rightarrow> pyval \<Rightarrow> rule \<Rightarrow> pyval option" where
  "spec_validate_field cast re_match value rule =
     (if value = VNone then None
      else (case spec_coerce cast value rule of
              None \<Rightarrow> None
            | Some v \<Rightarrow> if spec_pattern_ok re_match v rule then Some v else None))"

text \<open>
  The library raises an exception that the validator does not catch: the coercion of the
  field, when one is due, raises something other than \<^verbatim>\<open>ValueError\<close> and \<^verbatim>\<open>TypeError\<close>, or
  the match of its pattern, when one is due, raises.
\<close>

definition match_raises :: "matcher \<Rightarrow> pyval \<Rightarrow> rule \<Rightarrow> bool" where
  "match_raises re_match value rule =
     (case (regex rule, value) of
        (Some pattern, VStr s) \<Rightarrow> pattern \<noteq> [] \<and> isl (re_match pattern s)
      | _ \<Rightarrow> False)"

definition raises_uncaught :: "caster \<Rightarrow> matcher \<Rightarrow> pyval \<Rightarrow> rule \<Rightarrow> bool" where
  "raises_uncaught cast re_match value rule =
     (value \<noteq> VNone \<and>
      (case supported_kind rule of
         None \<Rightarrow> match_raises re_match value rule
       | Some kind \<Rightarrow>
           if isinstance value kind then match_raises re_match value rule
           else (case cast kind value of
                   Returns v \<Rightarrow> match_raises re_match v rule
                 | Caught \<Rightarrow> False
                 | Raises e \<Rightarrow> True)))"

section \<open>Python strings and conversions\<close>

text \<open>Decimal text of a number, as \<^verbatim>\<open>str\<close> and the f-strings print it.\<close>

fun show_nat :: "nat \<Rightarrow> string" where
  "show_nat n =
     (if n < 10 then [''0123456789'' ! n]
      else show_nat (n div 10) @ [''0123456789'' ! (n mod 10)])"

definition show_int :: "int \<Rightarrow> string" where
  "show_int i = (if i < 0 then CHR ''-'' # show_nat (nat (- i)) else show_nat (nat i))"

text \<open>\<^verbatim>\<open>str(v)\<close>\<close>

fun py_str :: "pyval \<Rightarrow> string" where
  "py_str VNone = ''None''"
| "py_str (VBool b) = (if b then ''True'' else ''False'')"
| "py_str (VInt i) = show_int i"
| "py_str (VFloat x) = x"
| "py_str (VStr s) = s"

text \<open>\<^verbatim>\<open>bool(v)\<close>, the truth value of a scalar.\<close>

fun py_bool :: "pyval \<Rightarrow> bool" where
  "py_bool VNone = False"
| "py_bool (VBool b) = b"
| "py_bool (VInt i) = (i \<noteq> 0)"
| "py_bool (VFloat x) = (x \<noteq> ''0.0'' \<and> x \<noteq> ''-0.0'')"
| "py_bool (VStr s) = (s \<noteq> [])"

definition is_digit :: "char \<Rightarrow> bool" where
  "is_digit c = (c \<in> set ''0123456789'')"

definition digits_value :: "string \<Rightarrow> nat" where
  "digits_value s = foldl (\<lambda>acc c. 10 * acc + (of_char c - 48)) 0 s"

text \<open>
  A caster and a matcher for the examples. They agree with Python on the conversions the
  examples use: \<^verbatim>\<open>str(v)\<close> and \<^verbatim>\<open>bool(v)\<close> of a scalar; \<^verbatim>\<open>int(s)\<close> of a string of ASCII
  decimal digits, and its \<^verbatim>\<open>ValueError\<close> on a string with a letter; \<^verbatim>\<open>int(x)\<close> of a float
  infinity, which raises \<^verbatim>\<open>OverflowError\<close>; and \<^verbatim>\<open>re.match\<close> with a pattern of plain
  letters and digits, which matches when the pattern is a prefix of the text. Every other
  conversion is reported as caught. No theorem but the examples depends on them.
\<close>

definition scalar_cast :: caster where
  "scalar_cast t v =
     (case t of
        TStr \<Rightarrow> Returns (VStr (py_str v))
      | TBool \<Rightarrow> Returns (VBool (py_bool v))
      | TInt \<Rightarrow>
          (case v of
             VStr s \<Rightarrow> if s \<noteq> [] \<and> list_all is_digit s then Returns (VInt (int (digits_value s)))
                       else Caught
           | VFloat x \<Rightarrow>
               if x = ''inf'' \<or> x = ''-inf''
               then Raises (OverflowError ''cannot convert float infinity to integer'')
               else Caught
           | _ \<Rightarrow> Caught)
      | TFloat \<Rightarrow> Caught)"

definition literal_match :: matcher where
  "literal_match rx s = Inr (take (length rx) s = rx)"

section \<open>writing.py\<close>

subsection \<open>String operations\<close>

text \<open>
  Strings are byte lists holding UTF-8. \<^verbatim>\<open>str.strip()\<close> removes the characters of
  \<^verbatim>\<open>str.isspace\<close> from both ends: the ASCII ones (U+0009 to U+000D, U+001C to U+0020) are
  one byte, U+0085 and U+00A0 two bytes, and U+1680, U+2000 to U+200A, U+2028, U+2029,
  U+202F, U+205F and U+3000 three bytes. \<^verbatim>\<open>str.lower()\<close> is modelled on the letters A--Z.
\<close>

definition is_space :: "char \<Rightarrow> bool" where
  "is_space c = (c \<in> set [CHR '' '', CHR 0x09, CHR 0x0A, CHR 0x0B, CHR 0x0C, CHR 0x0D,
                            CHR 0x1C, CHR 0x1D, CHR 0x1E, CHR 0x1F])"

definition is_space2 :: "char \<Rightarrow> char \<Rightarrow> bool" where
  "is_space2 a b = (a = CHR 0xC2 \<and> (b = CHR 0x85 \<or> b = CHR 0xA0))"

definition is_space3 :: "char \<Rightarrow> char \<Rightarrow> char \<Rightarrow> bool" where
  "is_space3 a b c =
     ((a = CHR 0xE1 \<and> b = CHR 0x9A \<and> c = CHR 0x80) \<or>
      (a = CHR 0xE2 \<and> b = CHR 0x80 \<and>
         c \<in> set [CHR 0x80, CHR 0x81, CHR 0x82, CHR 0x83, CHR 0x84, CHR 0x85, CHR 0x86, CHR 0x87,
                   CHR 0x88, CHR 0x89, CHR 0x8A, CHR 0xA8, CHR 0xA9, CHR 0xAF]) \<or>
      (a = CHR 0xE2 \<and> b = CHR 0x81 \<and> c = CHR 0x9F) \<or>
      (a = CHR 0xE3 \<and> b = CHR 0x80 \<and> c = CHR 0x80))"

text \<open>
  Dropping white space from the front of a byte list; \<open>p2\<close> and \<open>p3\<close> recognise the
  two-byte and three-byte characters, in the order in which the bytes are met.
\<close>

fun strip_front :: "(char \<Rightarrow> char \<Rightarrow> bool) \<Rightarrow> (char \<Rightarrow> char \<Rightarrow> char \<Rightarrow> bool) \<Rightarrow> string \<Rightarrow> string" where
  "strip_front p2 p3 (a # b # c # rest) =
     (if is_space a then strip_front p2 p3 (b # c # rest)
      else if p2 a b then strip_front p2 p3 (c # rest)
      else if p3 a b c then strip_front p2 p3 rest
      else a # b # c # rest)"
| "strip_front p2 p3 [a, b] =
     (if is_space a then strip_front p2 p3 [b]
      else if p2 a b then []
      else [a, b])"
| "strip_front p2 p3 [a] = (if is_space a then [] else [a])"
| "strip_front p2 p3 [] = []"

text \<open>From the back the bytes of a character are met in reverse.\<close>

definition strip :: "string \<Rightarrow> string" where
  "strip s =
     rev (strip_front (\<lambda>b a. is_space2 a b) (\<lambda>c b a. is_space3 a b c)
            (rev (strip_front is_space2 is_space3 s)))"


definition lower_char :: "char \<Rightarrow> char" where
  "lower_char c =
     (case map_of (zip ''ABCDEFGHIJKLMNOPQRSTUVWXYZ'' ''abcdefghijklmnopqrstuvwxyz'') c of
        None \<Rightarrow> c
      | Some d \<Rightarrow> d)"

definition lower :: "string \<Rightarrow> string" where
  "lower s = map lower_char s"

text \<open>\<^verbatim>\<open>sub in s\<close> for strings.\<close>

fun contains :: "string \<Rightarrow> string \<Rightarrow> bool" where
  "contains sub [] = (sub = [])"
| "contains sub (c # cs) = (take (length sub) (c # cs) = sub \<or> contains sub cs)"

text \<open>The letter o with an acute accent of the messages, in UTF-8.\<close>

definition o_acute :: string where
  "o_acute = [CHR 0xC3, CHR 0xB3]"

subsection \<open>Data frames and the database\<close>

text \<open>
  A row of the data frame built from the validated records: the four columns the module
  reads by name, and the remaining columns of the \<^verbatim>\<open>regulations\<close> table.
\<close>

record reg_row =
  title :: pyval
  created_at :: pyval
  entity :: pyval
  external_link :: pyval
  other_columns :: "(string \<times> pyval) list"

text \<open>
  The contents of the two tables. A stored regulation carries the identifier the database
  generated for it; a component row is \<^verbatim>\<open>(regulations_id, components_id)\<close>.
\<close>

record db_state =
  regulations :: "(int \<times> reg_row) list"
  regulations_component :: "(int \<times> int) list"
  next_id :: int

text \<open>
  The \<^verbatim>\<open>DatabaseManager\<close> with its psycopg2 connection: \<open>connected\<close> says that
  \<^verbatim>\<open>self.connection\<close> and \<^verbatim>\<open>self.cursor\<close> are set, \<open>committed\<close> is the durable state and
  \<open>working\<close> the state seen inside the open transaction. \<^verbatim>\<open>commit()\<close> makes the working
  state durable, \<^verbatim>\<open>rollback()\<close> throws it away.
\<close>

record connection =
  connected :: bool
  committed :: db_state
  working :: db_state

definition commit :: "connection \<Rightarrow> connection" where
  "commit db = db\<lparr>committed := working db\<rparr>"

text \<open>
  The database server is not part of the repository. Whether it refuses an \<^verbatim>\<open>INSERT\<close>
  (a constraint, a type error, a lost connection) is a parameter: \<open>Some e\<close> is the text of
  the error the driver raises for that row in that state. So is whether
  \<^verbatim>\<open>connection.rollback()\<close> raises, as it does on a connection that is gone:
  \<open>rollback_error\<close> gives the text of that error for the state the transaction is in. A
  \<^verbatim>\<open>commit()\<close> that follows an accepted batch is taken to succeed. The server stores cell
  values as they are given and returns them unchanged.
\<close>

record engine =
  reject_regulation :: "db_state \<Rightarrow> reg_row \<Rightarrow> string option"
  reject_component :: "db_state \<Rightarrow> int \<times> int \<Rightarrow> string option"
  rollback_error :: "db_state \<Rightarrow> string option"

text \<open>
  \<^verbatim>\<open>connection.rollback()\<close>: the work of the open transaction is discarded, by the
  \<^verbatim>\<open>ROLLBACK\<close> or, when the connection is gone, by the server that ends its session; in
  that case the call raises.
\<close>

definition rollback :: "engine \<Rightarrow> connection \<Rightarrow> connection \<times> exn option" where
  "rollback eng db =
     (db\<lparr>working := committed db\<rparr>, map_option InterfaceError (rollback_error eng (working db)))"

text \<open>
  \<^verbatim>\<open>cursor.executemany(insert_query, records_to_insert)\<close>: one \<^verbatim>\<open>INSERT\<close> per row inside the
  open transaction, stopping at the first row the server refuses. The result is the working
  state reached and the error, if any.
\<close>

fun executemany_regulations :: "engine \<Rightarrow> db_state \<Rightarrow> reg_row list \<Rightarrow> db_state \<times> string option" where
  "executemany_regulations eng w [] = (w, None)"
| "executemany_regulations eng w (r # rs) =
     (case reject_regulation eng w r of
        Some e \<Rightarrow> (w, Some e)
      | None \<Rightarrow>
          executemany_regulations eng
            (w\<lparr>regulations := regulations w @ [(next_id w, r)], next_id := next_id w + 1\<rparr>) rs)"

fun executemany_components :: "engine \<Rightarrow> db_state \<Rightarrow> (int \<times> int) list \<Rightarrow> db_state \<times> string option" where
  "executemany_components eng w [] = (w, None)"
| "executemany_components eng w (r # rs) =
     (case reject_component eng w r of
        Some e \<Rightarrow> (w, Some e)
      | None \<Rightarrow>
          executemany_components eng
            (w\<lparr>regulations_component := regulations_component w @ [r]\<rparr>) rs)"

text \<open>
  A data frame together with the table it is bound for: the two ways \<^verbatim>\<open>bulk_insert\<close> is
  called (\<^verbatim>\<open>"regulations"\<close> on line 220, \<^verbatim>\<open>"regulations_component"\<close> on line 110).
\<close>

datatype batch = RegulationRows "reg_row list" | ComponentRows "(int \<times> int) list"

fun table_name :: "batch \<Rightarrow> string" where
  "table_name (RegulationRows rows) = ''regulations''"
| "table_name (ComponentRows rows) = ''regulations_component''"

text \<open>\<^verbatim>\<open>len(df)\<close>\<close>

fun df_len :: "batch \<Rightarrow> nat" where
  "df_len (RegulationRows rows) = length rows"
| "df_len (ComponentRows rows) = length rows"

text \<open>\<^verbatim>\<open>pd.isna\<close> on a cell: \<^verbatim>\<open>None\<close> and the float NaN.\<close>

definition isna :: "pyval \<Rightarrow> bool" where
  "isna v = (v = VNone \<or> v = VFloat ''nan'')"

text \<open>\<^verbatim>\<open>df.astype(object).where(pd.notnull(df), None)\<close>, line 83, on one cell and on one row.\<close>

definition null_to_none :: "pyval \<Rightarrow> pyval" where
  "null_to_none v = (if isna v then VNone else v)"

definition where_notnull :: "reg_row \<Rightarrow> reg_row" where
  "where_notnull r =
     \<lparr>title = null_to_none (title r), created_at = null_to_none (created_at r),
      entity = null_to_none (entity r), external_link = null_to_none (external_link r),
      other_columns = map (\<lambda>(c, v). (c, null_to_none v)) (other_columns r)\<rparr>"

fun executemany :: "engine \<Rightarrow> db_state \<Rightarrow> batch \<Rightarrow> db_state \<times> string option" where
  "executemany eng w (RegulationRows rows) = executemany_regulations eng w (map where_notnull rows)"
| "executemany eng w (ComponentRows rows) = executemany_components eng w rows"

subsection \<open>\<^verbatim>\<open>DatabaseManager.bulk_insert\<close>\<close>

text \<open>
  Lines 77--95. The check of line 79 raises before the \<^verbatim>\<open>try\<close>; inside it, an error of
  \<^verbatim>\<open>executemany\<close> goes to the handler, which rolls back and raises the \<^verbatim>\<open>RuntimeError\<close>.
  When the rollback of line 94 itself raises, that exception leaves the handler in place
  of the \<^verbatim>\<open>RuntimeError\<close>.
\<close>

definition bulk_insert :: "engine \<Rightarrow> connection \<Rightarrow> batch \<Rightarrow> connection \<times> (exn + nat)" where
  "bulk_insert eng db df =
     (if \<not> connected db then (db, Inl (RuntimeError ''Base de datos no conectada''))
      else (case executemany eng (working db) df of
              (w, Some e) \<Rightarrow>
                (case rollback eng (db\<lparr>working := w\<rparr>) of
                   (db', Some failure) \<Rightarrow> (db', Inl failure)
                 | (db', None) \<Rightarrow>
                     (db', Inl (RuntimeError (''Error insertando en '' @ table_name df @ '': '' @ e))))
            | (w, None) \<Rightarrow> (commit (db\<lparr>working := w\<rparr>), Inr (df_len df))))"

subsection \<open>\<^verbatim>\<open>insert_regulations_component\<close>\<close>

definition insert_regulations_component ::
  "engine \<Rightarrow> connection \<Rightarrow> int list \<Rightarrow> connection \<times> (nat \<times> string)" where
  "insert_regulations_component eng db new_ids =
     (if new_ids = [] then
        (db, (0, ''No se proporcionaron IDs de regulaci'' @ o_acute @ ''n nuevos''))
      else (case bulk_insert eng db (ComponentRows (map (\<lambda>i. (i, 7)) new_ids)) of
              (db', Inr inserted_count) \<Rightarrow>
                (db', (inserted_count,
                   ''Insertados '' @ show_nat inserted_count @ '' componentes de regulaci'' @ o_acute @ ''n''))
            | (db', Inl e) \<Rightarrow>
                (db', (0, ''Error insertando componentes de regulaci'' @ o_acute @ ''n: '' @ exn_str e))))"

subsection \<open>The queries of \<^verbatim>\<open>insert_new_records\<close>\<close>

text \<open>
  \<^verbatim>\<open>SELECT title, created_at, entity, COALESCE(external_link, '') ... WHERE entity = %s\<close>:
  the four columns of the stored rows of the entity, a null link replaced by the empty
  string.
\<close>

definition coalesce_empty :: "pyval \<Rightarrow> pyval" where
  "coalesce_empty v = (if v = VNone then VStr [] else v)"

definition select_columns :: "reg_row \<Rightarrow> reg_row" where
  "select_columns r =
     \<lparr>title = title r, created_at = created_at r, entity = entity r,
      external_link = coalesce_empty (external_link r), other_columns = []\<rparr>"

definition select_existing :: "db_state \<Rightarrow> string \<Rightarrow> reg_row list" where
  "select_existing w entity_value =
     map (\<lambda>(i, r). select_columns r)
       (filter (\<lambda>(i, r). entity r = VStr entity_value) (regulations w))"

text \<open>\<^verbatim>\<open>SELECT id ... WHERE entity = %s ORDER BY id DESC LIMIT %s\<close>\<close>

definition select_new_ids :: "db_state \<Rightarrow> string \<Rightarrow> nat \<Rightarrow> int list" where
  "select_new_ids w entity_value n =
     take n (rev (sort (map fst (filter (\<lambda>(i, r). entity r = VStr entity_value) (regulations w)))))"

text \<open>\<^verbatim>\<open>execute_query\<close>, lines 64--68: it raises when there is no cursor.\<close>

definition execute_query :: "connection \<Rightarrow> (db_state \<Rightarrow> 'a) \<Rightarrow> exn + 'a" where
  "execute_query db query =
     (if \<not> connected db then Inl (RuntimeError ''Base de datos no conectada'')
      else Inr (query (working db)))"

subsection \<open>Normalisation and duplicate detection\<close>

text \<open>\<^verbatim>\<open>fillna("")\<close> on one cell.\<close>

definition fillna_empty :: "pyval \<Rightarrow> pyval" where
  "fillna_empty v = (if isna v then VStr [] else v)"

text \<open>
  Step 3, lines 157--159 and 161--163, on one row: \<^verbatim>\<open>astype(str)\<close> applies \<^verbatim>\<open>str\<close> to every
  cell of the column.
\<close>

definition normalize_row :: "reg_row \<Rightarrow> reg_row" where
  "normalize_row r =
     r\<lparr>created_at := VStr (py_str (created_at r)),
       external_link := VStr (py_str (fillna_empty (external_link r))),
       title := VStr (strip (py_str (title r)))\<rparr>"

text \<open>
  Lines 174--183: the three columns joined with \<^verbatim>\<open>"|"\<close>. The columns hold strings after
  step 3, on which \<open>py_str\<close> is the identity.
\<close>

definition unique_key :: "reg_row \<Rightarrow> string" where
  "unique_key r = py_str (title r) @ ''|'' @ py_str (created_at r) @ ''|'' @ py_str (external_link r)"

text \<open>
  Step 4, lines 170--188: with no stored row every row is new, otherwise the rows whose
  \<open>unique_key\<close> is among the keys of the stored rows are left out.
\<close>

definition not_in_db :: "reg_row list \<Rightarrow> reg_row list \<Rightarrow> reg_row list" where
  "not_in_db db_df entity_df =
     (if db_df = [] then entity_df
      else filter (\<lambda>r. unique_key r \<notin> set (map unique_key db_df)) entity_df)"

text \<open>
  Step 5, \<^verbatim>\<open>drop_duplicates(subset=["title", "created_at", "external_link"], keep="first")\<close>:
  a row is dropped when an earlier row has the same three cells.
\<close>

definition subset_key :: "reg_row \<Rightarrow> pyval \<times> pyval \<times> pyval" where
  "subset_key r = (title r, created_at r, external_link r)"

fun drop_duplicates_from :: "(pyval \<times> pyval \<times> pyval) list \<Rightarrow> reg_row list \<Rightarrow> reg_row list" where
  "drop_duplicates_from seen [] = []"
| "drop_duplicates_from seen (r # rs) =
     (if subset_key r \<in> set seen then drop_duplicates_from seen rs
      else r # drop_duplicates_from (subset_key r # seen) rs)"

definition drop_duplicates :: "reg_row list \<Rightarrow> reg_row list" where
  "drop_duplicates df = drop_duplicates_from [] df"

text \<open>
  Steps 3 to 5 together, from the rows fetched from the store and the rows of the entity to
  the value of \<^verbatim>\<open>new_records\<close> on line 207.
\<close>

definition new_records :: "reg_row list \<Rightarrow> reg_row list \<Rightarrow> reg_row list" where
  "new_records existing_records entity_rows =
     drop_duplicates (not_in_db (map normalize_row existing_records) (map normalize_row entity_rows))"

text \<open>Line 229, the test on the text of the insertion error.\<close>

definition mentions_duplicate :: "string \<Rightarrow> bool" where
  "mentions_duplicate msg = (contains ''duplicate'' (lower msg) \<or> contains ''unique'' (lower msg))"

subsection \<open>\<^verbatim>\<open>insert_new_records\<close>\<close>

text \<open>
  The body of the outer \<^verbatim>\<open>try\<close>, lines 131--268. \<open>Inl e\<close> is an exception that leaves the
  body; \<open>Inr\<close> is a \<^verbatim>\<open>return\<close>. Step 3 normalises \<^verbatim>\<open>db_df\<close> only when it has rows, which on
  the empty frame is the same as mapping over no row. The handler of lines 253--255 is not
  modelled: \<open>insert_regulations_component\<close> raises nothing. The auxiliary columns dropped
  in step 6 are not columns of \<open>reg_row\<close>. The variable \<^verbatim>\<open>new_records\<close> of the source is
  \<open>not_stored\<close> after step 4 and \<open>to_insert\<close> after step 5.
\<close>

definition insert_new_records_try ::
  "engine \<Rightarrow> connection \<Rightarrow> reg_row list \<Rightarrow> string \<Rightarrow> connection \<times> (exn + nat \<times> string)" where
  "insert_new_records_try eng db df entity_value =
     (case execute_query db (\<lambda>w. select_existing w entity_value) of
        Inl e \<Rightarrow> (db, Inl e)
      | Inr existing_records \<Rightarrow>
          let entity_rows = filter (\<lambda>r. entity r = VStr entity_value) df in
          if entity_rows = [] then (db, Inr (0, ''Sin registros para entidad '' @ entity_value))
          else
            let db_df = map normalize_row existing_records;
                entity_df = map normalize_row entity_rows;
                not_stored = not_in_db db_df entity_df;
                duplicates_found = length entity_df - length not_stored;
                to_insert = drop_duplicates not_stored;
                internal_duplicates = length not_stored - length to_insert;
                total_duplicates = duplicates_found + internal_duplicates
            in
            if to_insert = [] then
              (db, Inr (0, ''Sin registros nuevos para '' @ entity_value @ '' tras validaci'' @ o_acute
                           @ ''n de duplicados''))
            else
              (case bulk_insert eng db (RegulationRows to_insert) of
                 (db1, Inl insert_error) \<Rightarrow>
                   if mentions_duplicate (exn_str insert_error) then
                     (db1, Inr (0, ''Algunos registros de '' @ entity_value
                                   @ '' eran duplicados y se omitieron''))
                   else (db1, Inl insert_error)
               | (db1, Inr total_rows) \<Rightarrow>
                   if total_rows = 0 then
                     (db1, Inr (0, ''No se insertaron registros para '' @ entity_value))
                   else
                     (case execute_query db1 (\<lambda>w. select_new_ids w entity_value total_rows) of
                        Inl e \<Rightarrow> (db1, Inl e)
                      | Inr new_ids \<Rightarrow>
                          (case (if new_ids \<noteq> [] then insert_regulations_component eng db1 new_ids
                                 else (db1, (0, []))) of
                             (db2, (inserted_comp, comp_msg)) \<Rightarrow>
                               (db2, Inr (total_rows,
                                  ''Entidad '' @ entity_value @ '': ''
                                  @ ''Procesados: '' @ show_nat (length entity_df)
                                  @ '' | Existentes: '' @ show_nat (length db_df)
                                  @ '' | Duplicados omitidos: '' @ show_nat total_duplicates
                                  @ '' | Nuevos insertados: '' @ show_nat total_rows
                                  @ ''. '' @ comp_msg))))))"

text \<open>
  The whole function: the handler of lines 270--277 catches every exception of the body,
  rolls back when there is a connection and returns \<^verbatim>\<open>(0, error_msg)\<close>. An exception of
  that rollback is raised inside the handler and reaches the caller.
\<close>

definition insert_new_records ::
  "engine \<Rightarrow> connection \<Rightarrow> reg_row list \<Rightarrow> string \<Rightarrow> connection \<times> (exn + nat \<times> string)" where
  "insert_new_records eng db df entity_value =
     (case insert_new_records_try eng db df entity_value of
        (db', Inr result) \<Rightarrow> (db', Inr result)
      | (db', Inl e) \<Rightarrow>
          if connected db' then
            (case rollback eng db' of
               (db'', Some failure) \<Rightarrow> (db'', Inl failure)
             | (db'', None) \<Rightarrow>
                 (db'', Inr (0, ''Error procesando entidad '' @ entity_value @ '': '' @ exn_str e)))
          else (db', Inr (0, ''Error procesando entidad '' @ entity_value @ '': '' @ exn_str e)))"

subsection \<open>\<^verbatim>\<open>run_writing\<close>\<close>

definition ENTITY_VALUE :: string where
  "ENTITY_VALUE = ''Agencia Nacional de Infraestructura''"

text \<open>A connection just opened on a store: its transaction starts from the durable state.\<close>

definition fresh_connection :: "db_state \<Rightarrow> connection" where
  "fresh_connection db_store = \<lparr>connected = True, committed = db_store, working = db_store\<rparr>"

text \<open>
  Lines 283--308 on the data frame built from the records. \<open>reachable\<close> is the result of
  \<^verbatim>\<open>connect()\<close>; after \<^verbatim>\<open>close()\<close> the store is the durable state of the connection.
\<close>

definition run_writing :: "engine \<Rightarrow> bool \<Rightarrow> db_state \<Rightarrow> reg_row list \<Rightarrow> db_state \<times> (exn + nat)" where
  "run_writing eng reachable db_store df =
     (if df = [] then (db_store, Inr 0)
      else if \<not> reachable then
        (db_store, Inl (RuntimeError ''No se pudo conectar a la base de datos''))
      else
        (case insert_new_records eng (fresh_connection db_store) df ENTITY_VALUE of
           (db, Inr (inserted_count, message)) \<Rightarrow> (committed db, Inr inserted_count)
         | (db, Inl e) \<Rightarrow> (committed db, Inl e)))"

subsection \<open>The resolver of the specification\<close>

text \<open>
  The duplicate resolver as section 4.3 of the specification words it, for comparison with
  \<open>new_records\<close>. The Identity Key of a record is the triple of its trimmed stringified
  title, its stringified creation date and its link with null replaced by the empty string.
  Candidates whose key is the key of an existing record are dropped; of the remaining
  candidates with the same key only the first is kept; the order is the original one.
\<close>

definition identity_key :: "reg_row \<Rightarrow> string \<times> string \<times> string" where
  "identity_key r =
     (strip (py_str (title r)), py_str (created_at r), py_str (fillna_empty (external_link r)))"

fun first_occurrences :: "(string \<times> string \<times> string) list \<Rightarrow> reg_row list \<Rightarrow> reg_row list" where
  "first_occurrences seen [] = []"
| "first_occurrences seen (r # rs) =
     (if identity_key r \<in> set seen then first_occurrences seen rs
      else r # first_occurrences (identity_key r # seen) rs)"

definition resolve_spec :: "reg_row list \<Rightarrow> reg_row list \<Rightarrow> reg_row list" where
  "resolve_spec existing candidates =
     first_occurrences []
       (filter (\<lambda>c. identity_key c \<notin> set (map identity_key existing)) candidates)"


subsection \<open>The store after a complete insertion\<close>

text \<open>
  The state in which every row of a batch has been appended to its table, the regulations
  with consecutive identifiers in the order of the batch.
\<close>

fun with_rows :: "db_state \<Rightarrow> batch \<Rightarrow> db_state" where
  "with_rows w (RegulationRows rows) =
     w\<lparr>regulations := regulations w @
          zip (map (\<lambda>k. next_id w + int k) [0..<length rows]) (map where_notnull rows),
       next_id := next_id w + int (length rows)\<rparr>"
| "with_rows w (ComponentRows rows) =
     w\<lparr>regulations_component := regulations_component w @ rows\<rparr>"

subsection \<open>Example data\<close>

text \<open>
  Servers, stores and rows for the examples: a server that accepts every row, one that
  refuses every regulation with a given error text, one with a unique constraint on the
  title of a regulation, and one whose connection is gone, so that every statement and the
  rollback raise.
\<close>

definition accepting_engine :: engine where
  "accepting_engine =
     \<lparr>reject_regulation = (\<lambda>w r. None), reject_component = (\<lambda>w c. None),
      rollback_error = (\<lambda>w. None)\<rparr>"


definition unique_title_engine :: engine where
  "unique_title_engine =
     \<lparr>reject_regulation =
        (\<lambda>w r. if title r \<in> set (map (\<lambda>(i, x). title x) (regulations w))
                then Some ''duplicate key value violates unique constraint regulations_title_key''
                else None),
      reject_component = (\<lambda>w c. None),
      rollback_error = (\<lambda>w. None)\<rparr>"

definition lost_connection_engine :: engine where
  "lost_connection_engine =
     \<lparr>reject_regulation = (\<lambda>w r. Some ''server closed the connection unexpectedly''),
      reject_component = (\<lambda>w c. Some ''server closed the connection unexpectedly''),
      rollback_error = (\<lambda>w. Some ''connection already closed'')\<rparr>"

definition empty_store :: db_state where
  "empty_store = \<lparr>regulations = [], regulations_component = [], next_id = 1\<rparr>"

definition ani_row :: "string \<Rightarrow> string \<Rightarrow> string \<Rightarrow> reg_row" where
  "ani_row t c l =
     \<lparr>title = VStr t, created_at = VStr c, entity = VStr ENTITY_VALUE, external_link = VStr l,
      other_columns = []\<rparr>"

definition store_with :: "reg_row list \<Rightarrow> db_state" where
  "store_with rows = with_rows empty_store (RegulationRows rows)"

section \<open>Properties of the validator\<close>

text \<open>The table of the code knows the kinds of the specification and no other name.\<close>

lemma supported_kind_TYPE_MAP:
  "supported_kind rule = (case type_name rule of None \<Rightarrow> None | Some name \<Rightarrow> TYPE_MAP name)"
  by (simp add: supported_kind_def TYPE_MAP_def split: option.splits)

lemma coerce_by_kind:
  "coerce cast value rule =
     (case supported_kind rule of
        None \<Rightarrow> Returns value
      | Some kind \<Rightarrow> if isinstance value kind then Returns value else cast kind value)"
  by (auto simp: coerce_def supported_kind_TYPE_MAP TYPE_MAP_def split: option.splits)

lemma regex_ok_when_no_raise:
  assumes "\<not> match_raises re_match v rule"
  shows "regex_ok re_match v rule = Inr (spec_pattern_ok re_match v rule)"
proof (cases "regex rule")
  case None
  then show ?thesis by (simp add: regex_ok_def spec_pattern_ok_def)
next
  case (Some pattern)
  show ?thesis
  proof (cases v)
    case (VStr s)
    show ?thesis
    proof (cases "pattern = []")
      case True
      with Some VStr show ?thesis by (simp add: regex_ok_def spec_pattern_ok_def)
    next
      case False
      with assms Some VStr obtain b where "re_match pattern s = Inr b"
        by (cases "re_match pattern s") (auto simp: match_raises_def)
      with Some VStr False show ?thesis by (simp add: regex_ok_def spec_pattern_ok_def)
    qed
  qed (use Some in \<open>simp_all add: regex_ok_def spec_pattern_ok_def\<close>)
qed

lemma regex_ok_when_raise:
  "match_raises re_match v rule \<Longrightarrow> \<exists>e. regex_ok re_match v rule = Inl e"
  by (cases "regex rule"; cases v)
    (auto simp: regex_ok_def match_raises_def isl_def split: sum.splits)

text \<open>
  Where the library raises nothing uncaught, \<open>validate_field\<close> computes the field check of
  the specification; where it does, the exception leaves \<open>validate_field\<close>.
\<close>

lemma validate_field_refines:
  assumes "\<not> raises_uncaught cast re_match value rule"
  shows "validate_field cast re_match value rule =
     Inr (case spec_validate_field cast re_match value rule of
            None \<Rightarrow> (False, VNone)
          | Some v \<Rightarrow> (True, v))"
proof (cases "value = VNone")
  case True
  then show ?thesis by (simp add: validate_field_def spec_validate_field_def)
next
  case False
  show ?thesis
  proof (cases "coerce cast value rule")
    case (Returns v)
    with assms False have quiet: "\<not> match_raises re_match v rule"
      by (auto simp: raises_uncaught_def coerce_by_kind split: option.splits if_splits)
    from Returns have "spec_coerce cast value rule = Some v"
      by (auto simp: spec_coerce_def coerce_by_kind split: option.splits if_splits)
    with False Returns regex_ok_when_no_raise [OF quiet] show ?thesis
      by (simp add: validate_field_def spec_validate_field_def)
  next
    case Caught
    then have "spec_coerce cast value rule = None"
      by (auto simp: spec_coerce_def coerce_by_kind split: option.splits if_splits)
    with False Caught show ?thesis
      by (simp add: validate_field_def spec_validate_field_def)
  next
    case (Raises e)
    with assms False show ?thesis
      by (auto simp: raises_uncaught_def coerce_by_kind split: option.splits if_splits)
  qed
qed

lemma validate_field_raises:
  assumes "raises_uncaught cast re_match value rule"
  shows "\<exists>e. validate_field cast re_match value rule = Inl e"
proof -
  from assms have nonnull: "value \<noteq> VNone" by (simp add: raises_uncaught_def)
  show ?thesis
  proof (cases "coerce cast value rule")
    case (Returns v)
    with assms have "match_raises re_match v rule"
      by (auto simp: raises_uncaught_def coerce_by_kind split: option.splits if_splits)
    then obtain e where "regex_ok re_match v rule = Inl e"
      using regex_ok_when_raise by blast
    with nonnull Returns show ?thesis by (simp add: validate_field_def)
  next
    case Caught
    with assms show ?thesis
      by (auto simp: raises_uncaught_def coerce_by_kind split: option.splits if_splits)
  next
    case (Raises e)
    with nonnull show ?thesis by (simp add: validate_field_def)
  qed
qed

text \<open>One turn of the loop on a field whose check raises nothing uncaught.\<close>

lemma validate_record_loop_step:
  assumes "\<not> raises_uncaught cast re_match (dict_get cleaned f) r"
  shows "validate_record_loop cast re_match ((f, r) # rest) cleaned =
     (case spec_validate_field cast re_match (dict_get cleaned f) r of
        None \<Rightarrow> if is_required r then Inr None
                else validate_record_loop cast re_match rest (cleaned(f \<mapsto> VNone))
      | Some v \<Rightarrow> validate_record_loop cast re_match rest (cleaned(f \<mapsto> v)))"
  by (simp add: validate_field_refines [OF assms] split: option.splits)

lemma dict_get_upd_other: "g \<noteq> f \<Longrightarrow> dict_get (d(g \<mapsto> v)) f = dict_get d f"
  by (simp add: dict_get_def)

lemma loop_passthrough:
  "validate_record_loop cast re_match rules cleaned = Inr (Some out) \<Longrightarrow> k \<notin> fst ` set rules \<Longrightarrow>
   out k = cleaned k"
proof (induction rules arbitrary: cleaned)
  case Nil
  then show ?case by simp
next
  case (Cons p rules)
  obtain g rg where p: "p = (g, rg)" by (cases p)
  from Cons.prems(2) p have k: "k \<noteq> g" "k \<notin> fst ` set rules" by auto
  from Cons.prems(1) p obtain w where
    "validate_record_loop cast re_match rules (cleaned(g \<mapsto> w)) = Inr (Some out)"
    by (auto split: sum.splits if_splits)
  then have "out k = (cleaned(g \<mapsto> w)) k"
    using k(2) by (rule Cons.IH)
  with k(1) show ?case by simp
qed


text \<open>
  The loop on the store writes to the object \<open>c\<close> only, allocates nothing, and ends as the
  loop on dictionary values does, with the same contents in \<open>c\<close> when the record is retained.
\<close>

lemma validate_record_loop_st_sound:
  "validate_record_loop_st cast re_match rules st c = (st', res) \<Longrightarrow>
   (\<forall>a. a \<noteq> c \<longrightarrow> cells st' a = cells st a) \<and> next_addr st' = next_addr st \<and>
   (case validate_record_loop cast re_match rules (cells st c) of
      Inl e \<Rightarrow> res = Inl e
    | Inr None \<Rightarrow> res = Inr None
    | Inr (Some d) \<Rightarrow> res = Inr (Some c) \<and> cells st' c = d)"
proof (induction rules arbitrary: st)
  case Nil
  then show ?case by auto
next
  case (Cons p rules)
  obtain f r where p: "p = (f, r)" by (cases p)
  show ?case
  proof (cases "validate_field cast re_match (dict_get (cells st c) f) r")
    case (Inl e)
    with Cons.prems p show ?thesis by auto
  next
    case (Inr pair)
    obtain ok v where pair: "pair = (ok, v)" by (cases pair)
    show ?thesis
    proof (cases "\<not> ok \<and> is_required r")
      case True
      with Cons.prems p Inr pair show ?thesis by auto
    next
      case False
      let ?w = "if ok then v else VNone"
      let ?st = "dict_setitem st c f ?w"
      from Cons.prems p Inr pair False
      have "validate_record_loop_st cast re_match rules ?st c = (st', res)"
        by (auto split: if_splits)
      from Cons.IH [OF this]
      have "(\<forall>a. a \<noteq> c \<longrightarrow> cells st' a = cells ?st a) \<and> next_addr st' = next_addr ?st \<and>
        (case validate_record_loop cast re_match rules (cells ?st c) of
           Inl e \<Rightarrow> res = Inl e
         | Inr None \<Rightarrow> res = Inr None
         | Inr (Some d) \<Rightarrow> res = Inr (Some c) \<and> cells st' c = d)" .
      moreover have "cells ?st c = (cells st c)(f \<mapsto> ?w)"
        by (simp add: dict_setitem_def)
      moreover have "cells ?st a = cells st a" if "a \<noteq> c" for a
        using that by (simp add: dict_setitem_def)
      moreover have "next_addr ?st = next_addr st"
        by (simp add: dict_setitem_def)
      moreover have "validate_record_loop cast re_match (p # rules) (cells st c) =
          validate_record_loop cast re_match rules ((cells st c)(f \<mapsto> ?w))"
        using False Inr pair by (auto simp add: p)
      ultimately show ?thesis
        by simp
    qed
  qed
qed

text \<open>
  When no field check raises, a record with a failing required field is discarded.
\<close>

lemma required_failure_discards:
  "distinct (map fst rules) \<Longrightarrow>
   (\<forall>(g, rg) \<in> set rules. \<not> raises_uncaught cast re_match (dict_get cleaned g) rg) \<Longrightarrow>
   (f, r) \<in> set rules \<Longrightarrow> required r = Some True \<Longrightarrow>
   spec_validate_field cast re_match (dict_get cleaned f) r = None \<Longrightarrow>
   validate_record_loop cast re_match rules cleaned = Inr None"
proof (induction rules arbitrary: cleaned)
  case Nil
  then show ?case by simp
next
  case (Cons p rules)
  obtain g rg where p: "p = (g, rg)" by (cases p)
  from Cons.prems(2) p have q: "\<not> raises_uncaught cast re_match (dict_get cleaned g) rg"
    by auto
  note step = validate_record_loop_step [OF q, of rules]
  show ?case
  proof (cases "(f, r) = (g, rg)")
    case True
    with Cons.prems p step show ?thesis
      by (simp add: is_required_def del: validate_record_loop.simps)
  next
    case False
    with Cons.prems p have mem: "(f, r) \<in> set rules" by auto
    with Cons.prems p have neq: "g \<noteq> f" by force
    from Cons.prems have dist: "distinct (map fst rules)" by simp
    have "validate_record_loop cast re_match rules (cleaned(g \<mapsto> w)) = Inr None" for w
    proof -
      have same: "dict_get (cleaned(g \<mapsto> w)) h = dict_get cleaned h" if "(h, rh) \<in> set rules" for h rh
      proof -
        from that Cons.prems(1) p have "g \<noteq> h" by force
        then show ?thesis by (rule dict_get_upd_other)
      qed
      have quiet: "\<forall>(h, rh) \<in> set rules.
          \<not> raises_uncaught cast re_match (dict_get (cleaned(g \<mapsto> w)) h) rh"
        using Cons.prems(2) same by auto
      have "spec_validate_field cast re_match (dict_get (cleaned(g \<mapsto> w)) f) r = None"
        using Cons.prems(5) same [OF mem] by simp
      with dist quiet mem Cons.prems(4) show ?thesis
        by (rule Cons.IH)
    qed
    then show ?thesis
      using step by (simp add: p del: validate_record_loop.simps split: option.splits)
  qed
qed

section \<open>Claims about the validator\<close>

text \<open>
  Claim C1 holds of the specification's field check, and the code breaks it. The rules
  give \<^verbatim>\<open>n\<close> the type \<^verbatim>\<open>int\<close> and mark \<^verbatim>\<open>title\<close> required; in the record \<^verbatim>\<open>title\<close> is null
  and \<^verbatim>\<open>n\<close> is the float infinity. The required field fails, so the record is to be
  discarded; \<^verbatim>\<open>int(float("inf"))\<close> raises \<^verbatim>\<open>OverflowError\<close>, which line 77 does not catch,
  and the exception leaves \<open>validate_record\<close> and \<open>run_validation\<close>.
\<close>

theorem required_field_discard_is_preempted_by_overflow:
  "required \<lparr>type_name = None, required = Some True, regex = None\<rparr> = Some True \<and>
   spec_validate_field scalar_cast literal_match
     (dict_get (Map.empty(''n'' \<mapsto> VFloat ''inf'', ''title'' \<mapsto> VNone)) ''title'')
     \<lparr>type_name = None, required = Some True, regex = None\<rparr> = None \<and>
   validate_record scalar_cast literal_match
     (Map.empty(''n'' \<mapsto> VFloat ''inf'', ''title'' \<mapsto> VNone))
     [(''n'', \<lparr>type_name = Some ''int'', required = None, regex = None\<rparr>),
      (''title'', \<lparr>type_name = None, required = Some True, regex = None\<rparr>)] =
     Inl (OverflowError ''cannot convert float infinity to integer'') \<and>
   run_validation scalar_cast literal_match
     [Map.empty(''n'' \<mapsto> VFloat ''inf'', ''title'' \<mapsto> VNone)]
     [(''n'', \<lparr>type_name = Some ''int'', required = None, regex = None\<rparr>),
      (''title'', \<lparr>type_name = None, required = Some True, regex = None\<rparr>)] =
     Inl (OverflowError ''cannot convert float infinity to integer'')"
  by (simp add: validate_record_def run_validation_def validate_field_def coerce_def TYPE_MAP_def
      scalar_cast_def dict_get_def spec_validate_field_def)

text \<open>
  Claim C8 holds of the specification's field check, and the code breaks it. \<^verbatim>\<open>int\<close> is a
  recognised type name and the float infinity is not an \<^verbatim>\<open>int\<close>, so the value is coerced;
  the coercion fails with \<^verbatim>\<open>OverflowError\<close>, and instead of making the field fail with
  \<^verbatim>\<open>(False, None)\<close> the exception leaves \<open>validate_field\<close>.
\<close>

theorem failed_coercion_raises_instead_of_failing_field:
  "TYPE_MAP ''int'' = Some TInt \<and>
   \<not> isinstance (VFloat ''inf'') TInt \<and>
   scalar_cast TInt (VFloat ''inf'') = Raises (OverflowError ''cannot convert float infinity to integer'') \<and>
   spec_validate_field scalar_cast literal_match (VFloat ''inf'')
     \<lparr>type_name = Some ''int'', required = None, regex = None\<rparr> = None \<and>
   validate_field scalar_cast literal_match (VFloat ''inf'')
     \<lparr>type_name = Some ''int'', required = None, regex = None\<rparr> =
     Inl (OverflowError ''cannot convert float infinity to integer'')"
  by (simp add: validate_field_def coerce_def TYPE_MAP_def scalar_cast_def spec_validate_field_def
      spec_coerce_def supported_kind_def)




text \<open>
  Claim C9. On the store, \<open>validate_record_st\<close> leaves the caller's record, and every
  other object that existed before the call, as it was, whether the call returns or raises.
  When the record is retained the result is a new object; it agrees with the input on every
  field that the rules do not name, and its contents are those computed by
  \<open>validate_record\<close> from the input.
\<close>

theorem validate_record_leaves_input_unchanged:
  assumes "record < next_addr st"
    and "validate_record_st cast re_match st record rules = (st', result)"
  shows "(\<forall>a. a < next_addr st \<longrightarrow> cells st' a = cells st a) \<and>
         (\<forall>out. result = Inr (Some out) \<longrightarrow>
            out \<noteq> record \<and>
            (\<forall>k. k \<notin> fst ` set rules \<longrightarrow> cells st' out k = cells st record k) \<and>
            validate_record cast re_match (cells st record) rules = Inr (Some (cells st' out)))"
proof -
  let ?c = "next_addr st"
  let ?st1 = "st\<lparr>cells := (cells st)(?c := cells st record), next_addr := Suc ?c\<rparr>"
  from assms(2) have run: "validate_record_loop_st cast re_match rules ?st1 ?c = (st', result)"
    by (simp add: validate_record_st_def dict_copy_def)
  from validate_record_loop_st_sound [OF run]
  have frame: "\<forall>a. a \<noteq> ?c \<longrightarrow> cells st' a = cells ?st1 a"
    and res: "case validate_record_loop cast re_match rules (cells ?st1 ?c) of
        Inl e \<Rightarrow> result = Inl e
      | Inr None \<Rightarrow> result = Inr None
      | Inr (Some d) \<Rightarrow> result = Inr (Some ?c) \<and> cells st' ?c = d"
    by blast+
  have copy: "cells ?st1 ?c = cells st record" by simp
  have unchanged: "cells st' a = cells st a" if "a < ?c" for a
    using frame that by simp
  have retained: "out \<noteq> record \<and>
      (\<forall>k. k \<notin> fst ` set rules \<longrightarrow> cells st' out k = cells st record k) \<and>
      validate_record cast re_match (cells st record) rules = Inr (Some (cells st' out))"
    if "result = Inr (Some out)" for out
  proof -
    from res that copy obtain d where
      d: "validate_record_loop cast re_match rules (cells st record) = Inr (Some d)"
      and o: "out = ?c" "cells st' ?c = d"
      by (auto split: sum.splits option.splits)
    from o(1) assms(1) have "out \<noteq> record" by simp
    moreover have "cells st' out k = cells st record k" if "k \<notin> fst ` set rules" for k
      using loop_passthrough [OF d that] o by simp
    ultimately show ?thesis
      using d o by (simp add: validate_record_def)
  qed
  from unchanged retained show ?thesis by blast
qed

theorem validate_record_leaves_input_unchanged_witness:
  "(0::nat) < next_addr \<lparr>cells = (\<lambda>a. Map.empty(''title'' \<mapsto> VInt 7, ''gtype'' \<mapsto> VStr ''link'')),
                         next_addr = 1\<rparr> \<and>
   (\<exists>st'. validate_record_st scalar_cast literal_match
        \<lparr>cells = (\<lambda>a. Map.empty(''title'' \<mapsto> VInt 7, ''gtype'' \<mapsto> VStr ''link'')), next_addr = 1\<rparr>
        0 [(''title'', \<lparr>type_name = Some ''str'', required = Some True, regex = None\<rparr>)] =
        (st', Inr (Some 1)) \<and>
      cells st' 0 = Map.empty(''title'' \<mapsto> VInt 7, ''gtype'' \<mapsto> VStr ''link'') \<and>
      cells st' 1 ''gtype'' = Some (VStr ''link'') \<and>
      cells st' 1 ''title'' = Some (VStr ''7''))"
proof -
  let ?d = "Map.empty(''title'' \<mapsto> VInt 7, ''gtype'' \<mapsto> VStr ''link'')"
  let ?st = "\<lparr>cells = (\<lambda>a. ?d), next_addr = 1\<rparr>"
  let ?r = "\<lparr>type_name = Some ''str'', required = Some True, regex = None\<rparr>"
  have a: "(0::nat) < next_addr ?st" by simp
  have vf: "validate_field scalar_cast literal_match (VInt 7) ?r = Inr (True, VStr ''7'')"
    by (simp add: validate_field_def coerce_def TYPE_MAP_def scalar_cast_def regex_ok_def
        show_int_def)
  obtain st' res where run:
    "validate_record_st scalar_cast literal_match ?st 0 [(''title'', ?r)] = (st', res)"
    by (cases "validate_record_st scalar_cast literal_match ?st 0 [(''title'', ?r)]")
  have res: "res = Inr (Some 1)"
    using run vf
    by (simp add: validate_record_st_def dict_copy_def dict_get_def)
  have title: "cells st' 1 ''title'' = Some (VStr ''7'')"
    using run vf
    by (auto simp add: validate_record_st_def dict_copy_def dict_get_def dict_setitem_def)
  from validate_record_leaves_input_unchanged [OF a run] res
  have "cells st' 0 = cells ?st 0" and "cells st' 1 ''gtype'' = cells ?st 0 ''gtype''"
    by auto
  with run res title a show ?thesis by simp
qed

section \<open>Properties of the write stage\<close>

lemma executemany_regulations_ok:
  "executemany_regulations eng w rows = (w', None) \<Longrightarrow>
   w' = w\<lparr>regulations := regulations w @ zip (map (\<lambda>k. next_id w + int k) [0..<length rows]) rows,
          next_id := next_id w + int (length rows)\<rparr>"
proof (induction rows arbitrary: w)
  case Nil
  then show ?case by simp
next
  case (Cons r rows)
  let ?w1 = "w\<lparr>regulations := regulations w @ [(next_id w, r)], next_id := next_id w + 1\<rparr>"
  from Cons.prems have rest: "executemany_regulations eng ?w1 rows = (w', None)"
    by (auto split: option.splits)
  have ids: "map (\<lambda>k. next_id w + int k) [0..<Suc (length rows)] =
      next_id w # map (\<lambda>k. next_id w + 1 + int k) [0..<length rows]"
    by (simp add: upt_conv_Cons map_Suc_upt [symmetric] del: upt_Suc)
  from Cons.IH [OF rest] show ?case
    by (simp add: ids del: upt_Suc)
qed

lemma executemany_components_ok:
  "executemany_components eng w rows = (w', None) \<Longrightarrow>
   w' = w\<lparr>regulations_component := regulations_component w @ rows\<rparr>"
proof (induction rows arbitrary: w)
  case Nil
  then show ?case by simp
next
  case (Cons r rows)
  let ?w1 = "w\<lparr>regulations_component := regulations_component w @ [r]\<rparr>"
  from Cons.prems have rest: "executemany_components eng ?w1 rows = (w', None)"
    by (auto split: option.splits)
  from Cons.IH [OF rest] show ?case by simp
qed

lemma executemany_ok:
  "executemany eng w df = (w', None) \<Longrightarrow> w' = with_rows w df"
  by (cases df) (auto dest: executemany_regulations_ok executemany_components_ok)

lemma contains_append_left: "contains sub ys \<Longrightarrow> contains sub (xs @ ys)"
  by (induction xs) simp_all

lemma mentions_duplicate_append_left:
  "mentions_duplicate e \<Longrightarrow> mentions_duplicate (pre @ e)"
  by (auto simp: mentions_duplicate_def lower_def contains_append_left)

lemma new_records_Nil: "new_records existing [] = []"
  by (simp add: new_records_def not_in_db_def drop_duplicates_def)

text \<open>What the body of \<open>insert_new_records\<close> does when the bulk insert is refused.\<close>

lemma insert_new_records_try_failed_insert:
  assumes "connected db"
    and "to_insert = new_records (select_existing (working db) entity_value)
           (filter (\<lambda>r. entity r = VStr entity_value) df)"
    and "to_insert \<noteq> []"
    and "executemany eng (working db) (RegulationRows to_insert) = (w, Some e)"
    and "rollback_error eng w = None"
  shows "insert_new_records_try eng db df entity_value =
     (if mentions_duplicate (''Error insertando en regulations: '' @ e) then
        (db\<lparr>working := committed db\<rparr>,
         Inr (0, ''Algunos registros de '' @ entity_value @ '' eran duplicados y se omitieron''))
      else (db\<lparr>working := committed db\<rparr>,
            Inl (RuntimeError (''Error insertando en regulations: '' @ e))))"
proof -
  from assms(2,3) have rows: "filter (\<lambda>r. entity r = VStr entity_value) df \<noteq> []"
    by (auto simp: new_records_Nil)
  have bulk: "bulk_insert eng db (RegulationRows to_insert) =
      (db\<lparr>working := committed db\<rparr>, Inl (RuntimeError (''Error insertando en regulations: '' @ e)))"
    using assms(1,4,5) by (simp add: bulk_insert_def rollback_def)
  show ?thesis
    using assms(1,3) rows bulk
    by (simp add: insert_new_records_try_def execute_query_def Let_def
        assms(2) [unfolded new_records_def, symmetric])
qed

section \<open>Claims about the write stage\<close>

text \<open>
  Claim C3. \<open>bulk_insert\<close> is atomic. When the manager is connected and the server
  refuses no row, every row of the batch is in the durable state afterwards and the number
  of rows is returned. In every other case an error is raised and the durable state is the
  one before the call, so no row of the batch is committed; if the manager is connected the
  transaction has been rolled back to it (the error is the one of the rollback when the
  rollback itself raises).
\<close>

theorem bulk_insert_atomic:
  assumes "bulk_insert eng db df = (db', result)"
  shows "(connected db \<and> snd (executemany eng (working db) df) = None \<longrightarrow>
            result = Inr (df_len df) \<and> committed db' = with_rows (working db) df \<and>
            working db' = committed db') \<and>
         (\<not> (connected db \<and> snd (executemany eng (working db) df) = None) \<longrightarrow>
            (\<exists>e. result = Inl e) \<and> committed db' = committed db \<and>
            (connected db \<longrightarrow> working db' = committed db))"
proof (cases "connected db")
  case False
  with assms show ?thesis by (auto simp: bulk_insert_def)
next
  case True
  obtain w err where ex: "executemany eng (working db) df = (w, err)"
    by (cases "executemany eng (working db) df")
  show ?thesis
  proof (cases err)
    case None
    with ex have "w = with_rows (working db) df" by (auto dest: executemany_ok)
    with assms True ex None show ?thesis
      by (auto simp: bulk_insert_def commit_def)
  next
    case (Some e)
    with assms True ex show ?thesis
      by (auto simp: bulk_insert_def rollback_def split: option.splits)
  qed
qed

theorem bulk_insert_atomic_witness:
  "(\<exists>e. snd (bulk_insert unique_title_engine (fresh_connection empty_store)
            (RegulationRows [ani_row ''Decreto 123'' ''2024-01-01'' ''http://x'',
                             ani_row ''Decreto 123'' ''2024-02-02'' ''http://y''])) = Inl e) \<and>
   committed (fst (bulk_insert unique_title_engine (fresh_connection empty_store)
            (RegulationRows [ani_row ''Decreto 123'' ''2024-01-01'' ''http://x'',
                             ani_row ''Decreto 123'' ''2024-02-02'' ''http://y'']))) = empty_store \<and>
   snd (bulk_insert accepting_engine (fresh_connection empty_store)
            (RegulationRows [ani_row ''Decreto 123'' ''2024-01-01'' ''http://x'',
                             ani_row ''Decreto 123'' ''2024-02-02'' ''http://y''])) = Inr 2 \<and>
   regulations (committed (fst (bulk_insert accepting_engine (fresh_connection empty_store)
            (RegulationRows [ani_row ''Decreto 123'' ''2024-01-01'' ''http://x'',
                             ani_row ''Decreto 123'' ''2024-02-02'' ''http://y''])))) =
     [(1, ani_row ''Decreto 123'' ''2024-01-01'' ''http://x''),
      (2, ani_row ''Decreto 123'' ''2024-02-02'' ''http://y'')]"
proof -
  let ?db = "fresh_connection empty_store"
  let ?df = "RegulationRows [ani_row ''Decreto 123'' ''2024-01-01'' ''http://x'',
                             ani_row ''Decreto 123'' ''2024-02-02'' ''http://y'']"
  obtain db1 r1 where b1: "bulk_insert unique_title_engine ?db ?df = (db1, r1)"
    by (cases "bulk_insert unique_title_engine ?db ?df")
  obtain db2 r2 where b2: "bulk_insert accepting_engine ?db ?df = (db2, r2)"
    by (cases "bulk_insert accepting_engine ?db ?df")
  have refused: "\<not> (connected ?db \<and> snd (executemany unique_title_engine (working ?db) ?df) = None)"
    by (simp add: fresh_connection_def empty_store_def unique_title_engine_def ani_row_def
        where_notnull_def null_to_none_def isna_def)
  have accepted: "connected ?db \<and> snd (executemany accepting_engine (working ?db) ?df) = None"
    by (simp add: fresh_connection_def accepting_engine_def)
  have clean: "where_notnull (ani_row t c l) = ani_row t c l" for t c l
    by (simp add: where_notnull_def ani_row_def null_to_none_def isna_def)
  from bulk_insert_atomic [OF b1] refused
  have "(\<exists>e. r1 = Inl e) \<and> committed db1 = committed ?db" by blast
  moreover from bulk_insert_atomic [OF b2] accepted
  have "r2 = Inr (df_len ?df) \<and> committed db2 = with_rows (working ?db) ?df" by blast
  ultimately show ?thesis
    using b1 b2 by (simp add: fresh_connection_def empty_store_def clean upt_rec)
qed




text \<open>
  When the connection is gone the rollbacks raise, and it is their error that reaches the
  caller of \<open>insert_new_records\<close> and of \<open>run_writing\<close>.
\<close>

lemma lost_connection_error_reaches_caller:
  "insert_new_records lost_connection_engine (fresh_connection empty_store)
     [ani_row ''Decreto 123'' ''2024-01-01'' ''http://x''] ENTITY_VALUE =
     (fresh_connection empty_store, Inl (InterfaceError ''connection already closed'')) \<and>
   run_writing lost_connection_engine True empty_store
     [ani_row ''Decreto 123'' ''2024-01-01'' ''http://x''] =
     (empty_store, Inl (InterfaceError ''connection already closed''))"
  by code_simp

text \<open>
  Claim C5. When the bulk insert of the deduplicated batch is refused with an error
  whose text mentions \<^verbatim>\<open>duplicate\<close> or \<^verbatim>\<open>unique\<close> (in any letter case), \<open>insert_new_records\<close>
  raises nothing: it returns the count 0 and the message that some records of the entity
  were duplicates and were left out. A constraint violation leaves the connection alive, so
  the rollback of line 94 succeeds.
\<close>

theorem duplicate_error_reports_zero:
  assumes "connected db"
    and "to_insert = new_records (select_existing (working db) entity_value)
           (filter (\<lambda>r. entity r = VStr entity_value) df)"
    and "to_insert \<noteq> []"
    and "executemany eng (working db) (RegulationRows to_insert) = (w, Some e)"
    and "mentions_duplicate e"
    and "rollback_error eng w = None"
  shows "insert_new_records eng db df entity_value =
     (db\<lparr>working := committed db\<rparr>,
      Inr (0, ''Algunos registros de '' @ entity_value @ '' eran duplicados y se omitieron''))"
proof -
  have "mentions_duplicate (''Error insertando en regulations: '' @ e)"
    using assms(5) by (rule mentions_duplicate_append_left)
  with insert_new_records_try_failed_insert [OF assms(1-4,6)]
  have "insert_new_records_try eng db df entity_value =
     (db\<lparr>working := committed db\<rparr>,
      Inr (0, ''Algunos registros de '' @ entity_value @ '' eran duplicados y se omitieron''))"
    by (simp only: if_True)
  then show ?thesis
    by (simp add: insert_new_records_def)
qed

theorem duplicate_error_reports_zero_witness:
  "insert_new_records unique_title_engine
     (fresh_connection (store_with [ani_row ''Decreto 123'' ''2024-01-01'' ''http://x'']))
     [ani_row ''Decreto 123'' ''2024-03-03'' ''http://z''] ENTITY_VALUE =
   ((fresh_connection (store_with [ani_row ''Decreto 123'' ''2024-01-01'' ''http://x'']))
      \<lparr>working := committed (fresh_connection (store_with [ani_row ''Decreto 123'' ''2024-01-01'' ''http://x'']))\<rparr>,
    Inr (0, ''Algunos registros de '' @ ENTITY_VALUE @ '' eran duplicados y se omitieron''))"
proof -
  let ?e = "''duplicate key value violates unique constraint regulations_title_key''"
  let ?db = "fresh_connection (store_with [ani_row ''Decreto 123'' ''2024-01-01'' ''http://x''])"
  let ?df = "[ani_row ''Decreto 123'' ''2024-03-03'' ''http://z'']"
  have c: "connected ?db" by (simp add: fresh_connection_def)
  have n: "?df = new_records (select_existing (working ?db) ENTITY_VALUE)
      (filter (\<lambda>r. entity r = VStr ENTITY_VALUE) ?df)"
    by code_simp
  have ne: "?df \<noteq> []" by simp
  have x: "executemany unique_title_engine (working ?db) (RegulationRows ?df) = (working ?db, Some ?e)"
    by code_simp
  have m: "mentions_duplicate ?e"
    by code_simp
  have r: "rollback_error unique_title_engine (working ?db) = None"
    by (simp add: unique_title_engine_def)
  from duplicate_error_reports_zero [OF c n ne x m r] show ?thesis .
qed







text \<open>
  Claim C2 holds of the resolver of the specification, and the code breaks it. The
  stored record and the candidate below have different Identity Keys, and the candidate is alone
  in its batch, so the resolver keeps it. The code drops it: the check against the store
  compares the three components joined with \<^verbatim>\<open>"|"\<close> (lines 174--186), which for both rows
  is \<^verbatim>\<open>Ley 1|2024|01-01|http://x\<close>, whereas the check inside the batch (lines 196--199)
  compares the three components.
\<close>

theorem store_check_drops_unmatched_candidate:
  "identity_key (ani_row ''Ley 1'' ''2024|01-01'' ''http://x'') \<notin>
     set (map identity_key [ani_row ''Ley 1|2024'' ''01-01'' ''http://x'']) \<and>
   resolve_spec [ani_row ''Ley 1|2024'' ''01-01'' ''http://x'']
     [ani_row ''Ley 1'' ''2024|01-01'' ''http://x''] = [ani_row ''Ley 1'' ''2024|01-01'' ''http://x''] \<and>
   unique_key (normalize_row (ani_row ''Ley 1'' ''2024|01-01'' ''http://x'')) =
     ''Ley 1|2024|01-01|http://x'' \<and>
   unique_key (normalize_row (ani_row ''Ley 1|2024'' ''01-01'' ''http://x'')) =
     ''Ley 1|2024|01-01|http://x'' \<and>
   new_records [ani_row ''Ley 1|2024'' ''01-01'' ''http://x'']
     [ani_row ''Ley 1'' ''2024|01-01'' ''http://x''] = [] \<and>
   insert_new_records accepting_engine
     (fresh_connection (store_with [ani_row ''Ley 1|2024'' ''01-01'' ''http://x'']))
     [ani_row ''Ley 1'' ''2024|01-01'' ''http://x''] ENTITY_VALUE =
     (fresh_connection (store_with [ani_row ''Ley 1|2024'' ''01-01'' ''http://x'']),
      Inr (0, ''Sin registros nuevos para '' @ ENTITY_VALUE @ '' tras validaci'' @ o_acute
              @ ''n de duplicados''))"
  by code_simp

text \<open>
  Claim C10. The check against the stored records compares the keys joined with \<^verbatim>\<open>"|"\<close>,
  and the joined key is not injective. The candidate and the stored record below differ in
  title, in creation date and in link, both have the key \<^verbatim>\<open>Ley 1|2024|01|http|x\<close>, and
  the candidate is classified as stored and dropped: nothing is inserted.
\<close>

theorem joined_key_collision_drops_candidate:
  "title (ani_row ''Ley 1'' ''2024|01'' ''http|x'') \<noteq> title (ani_row ''Ley 1|2024'' ''01|http'' ''x'') \<and>
   created_at (ani_row ''Ley 1'' ''2024|01'' ''http|x'') \<noteq>
     created_at (ani_row ''Ley 1|2024'' ''01|http'' ''x'') \<and>
   external_link (ani_row ''Ley 1'' ''2024|01'' ''http|x'') \<noteq>
     external_link (ani_row ''Ley 1|2024'' ''01|http'' ''x'') \<and>
   unique_key (normalize_row (ani_row ''Ley 1'' ''2024|01'' ''http|x'')) = ''Ley 1|2024|01|http|x'' \<and>
   unique_key (normalize_row (ani_row ''Ley 1|2024'' ''01|http'' ''x'')) = ''Ley 1|2024|01|http|x'' \<and>
   not_in_db
     (map normalize_row (select_existing (store_with [ani_row ''Ley 1|2024'' ''01|http'' ''x'']) ENTITY_VALUE))
     (map normalize_row [ani_row ''Ley 1'' ''2024|01'' ''http|x'']) = [] \<and>
   insert_new_records accepting_engine
     (fresh_connection (store_with [ani_row ''Ley 1|2024'' ''01|http'' ''x'']))
     [ani_row ''Ley 1'' ''2024|01'' ''http|x''] ENTITY_VALUE =
     (fresh_connection (store_with [ani_row ''Ley 1|2024'' ''01|http'' ''x'']),
      Inr (0, ''Sin registros nuevos para '' @ ENTITY_VALUE @ '' tras validaci'' @ o_acute
              @ ''n de duplicados''))"
  by code_simp

text \<open>Stripping is idempotent, so a normalised title read back from the store is stable.\<close>

lemma strip_front_suffix: "\<exists>pre. s = pre @ strip_front p2 p3 s"
proof (induction p2 p3 s rule: strip_front.induct)
  case (1 p2 p3 a b c rest)
  then show ?case
    by (auto simp: Cons_eq_append_conv)
next
  case (2 p2 p3 a b)
  then show ?case by (auto simp: Cons_eq_append_conv)
next
  case (3 p2 p3 a)
  then show ?case by auto
next
  case (4 p2 p3)
  then show ?case by simp
qed

lemma strip_front_length: "length (strip_front p2 p3 s) \<le> length s"
  using strip_front_suffix [of s p2 p3] by (metis le_add2 length_append)

















end
